theory Spec2Isabelle
  imports Complex_Main
begin

section \<open>The crop selection of ImageCropTool (src/js/image-tools.js)\<close>

text \<open>
  The model covers the fields of the object \<open>ImageCropTool\<close> that hold the crop
  rectangle and the drag state, and the handlers that change them:
  \<open>handleImageSelect\<close>, \<open>onMouseDown\<close>, \<open>onMouseMove\<close>, \<open>onMouseUp\<close>, \<open>startDrag\<close>
  and \<open>updateDrag\<close>. The specification calls them \<open>initialize\<close>, \<open>beginGesture\<close>,
  \<open>updateGesture\<close> and \<open>endGesture\<close>.

  A JavaScript number is modelled as a rational: arithmetic is exact, and rounding, NaN
  and the infinities of IEEE doubles are outside the model. Drawing (\<open>updateCropPreview\<close>,
  \<open>drawCropOverlay\<close>) reads the rectangle and writes none of the modelled fields, so it
  is left out.
\<close>

subsection \<open>State\<close>

text \<open>
  \<open>dragMode\<close> is a string field that the object literal does not declare: it is
  \<open>undefined\<close> (here \<open>Unset\<close>) until the first call of \<open>startDrag\<close>.
\<close>

datatype drag_mode = Unset | TopLeft | TopRight | BottomLeft | BottomRight | Move | New

text \<open>
  \<open>canvasWidth\<close> and \<open>canvasHeight\<close> stand for \<open>this.cropCanvas.width\<close> and
  \<open>this.cropCanvas.height\<close>. \<open>dragOffsetX\<close> and \<open>dragOffsetY\<close> are likewise absent from
  the object literal; they are read in mode \<open>move\<close> only, and \<open>startDrag\<close> writes both
  whenever it sets that mode.
\<close>

record crop_tool =
  canvasWidth :: rat
  canvasHeight :: rat
  cropStartX :: rat
  cropStartY :: rat
  cropEndX :: rat
  cropEndY :: rat
  isDragging :: bool
  dragMode :: drag_mode
  dragOffsetX :: rat
  dragOffsetY :: rat

text \<open>
  The object literal: all four coordinates \<open>0\<close>, \<open>isDragging\<close> false. The canvas is the
  page's element, whose size is a parameter.
\<close>

definition ImageCropTool :: "rat \<Rightarrow> rat \<Rightarrow> crop_tool" where
  "ImageCropTool cw ch =
     \<lparr>canvasWidth = cw, canvasHeight = ch,
      cropStartX = 0, cropStartY = 0, cropEndX = 0, cropEndY = 0,
      isDragging = False, dragMode = Unset, dragOffsetX = 0, dragOffsetY = 0\<rparr>"

text \<open>The rectangle as the drawing and export code reads it.\<close>

definition currentRectangle :: "crop_tool \<Rightarrow> rat \<times> rat \<times> rat \<times> rat" where
  "currentRectangle st = (cropStartX st, cropStartY st, cropEndX st, cropEndY st)"

subsection \<open>Loading an image\<close>

text \<open>
  A selected file has a MIME type, and decoding it (\<open>ImageTools.createImage\<close>) either
  gives an image of some width and height or fails.
\<close>

record image =
  imgWidth :: rat
  imgHeight :: rat

record image_file =
  fileType :: string
  decoded :: "image option"

text \<open>
  \<open>handleImageSelect\<close> returns early when no file was chosen or its type does not start
  with \<open>image/\<close>; a decoding failure is caught before any field is written. Otherwise
  the canvas takes the size of the image and the crop area becomes the centre 50 percent.
\<close>

definition handleImageSelect :: "crop_tool \<Rightarrow> image_file option \<Rightarrow> crop_tool" where
  "handleImageSelect st f =
     (case f of
        None \<Rightarrow> st
      | Some fl \<Rightarrow>
          if take 6 (fileType fl) \<noteq> ''image/'' then st
          else (case decoded fl of
                  None \<Rightarrow> st
                | Some originalImage \<Rightarrow>
                    st\<lparr>canvasWidth := imgWidth originalImage,
                       canvasHeight := imgHeight originalImage,
                       cropStartX := imgWidth originalImage * (25 / 100),
                       cropStartY := imgHeight originalImage * (25 / 100),
                       cropEndX := imgWidth originalImage * (75 / 100),
                       cropEndY := imgHeight originalImage * (75 / 100)\<rparr>))"

subsection \<open>Starting a drag\<close>

definition startDrag :: "crop_tool \<Rightarrow> rat \<Rightarrow> rat \<Rightarrow> crop_tool" where
  "startDrag st x y =
     (let handleSize = 10 in
      if \<bar>x - cropStartX st\<bar> < handleSize \<and> \<bar>y - cropStartY st\<bar> < handleSize then
        st\<lparr>dragMode := TopLeft\<rparr>
      else if \<bar>x - cropEndX st\<bar> < handleSize \<and> \<bar>y - cropStartY st\<bar> < handleSize then
        st\<lparr>dragMode := TopRight\<rparr>
      else if \<bar>x - cropStartX st\<bar> < handleSize \<and> \<bar>y - cropEndY st\<bar> < handleSize then
        st\<lparr>dragMode := BottomLeft\<rparr>
      else if \<bar>x - cropEndX st\<bar> < handleSize \<and> \<bar>y - cropEndY st\<bar> < handleSize then
        st\<lparr>dragMode := BottomRight\<rparr>
      else if x > cropStartX st \<and> x < cropEndX st \<and> y > cropStartY st \<and> y < cropEndY st then
        st\<lparr>dragMode := Move,
           dragOffsetX := x - cropStartX st,
           dragOffsetY := y - cropStartY st\<rparr>
      else
        st\<lparr>dragMode := New,
           cropStartX := x, cropStartY := y, cropEndX := x, cropEndY := y\<rparr>)"

subsection \<open>Updating a drag\<close>

text \<open>
  The \<open>switch\<close> has no default case: with \<open>dragMode\<close> still undefined nothing is
  written.
\<close>

definition updateDrag :: "crop_tool \<Rightarrow> rat \<Rightarrow> rat \<Rightarrow> crop_tool" where
  "updateDrag st px py =
     (let minSize = 20;
          x = max 0 (min (canvasWidth st) px);
          y = max 0 (min (canvasHeight st) py)
      in case dragMode st of
           TopLeft \<Rightarrow>
             st\<lparr>cropStartX := min (cropEndX st - minSize) x,
                cropStartY := min (cropEndY st - minSize) y\<rparr>
         | TopRight \<Rightarrow>
             st\<lparr>cropEndX := max (cropStartX st + minSize) x,
                cropStartY := min (cropEndY st - minSize) y\<rparr>
         | BottomLeft \<Rightarrow>
             st\<lparr>cropStartX := min (cropEndX st - minSize) x,
                cropEndY := max (cropStartY st + minSize) y\<rparr>
         | BottomRight \<Rightarrow>
             st\<lparr>cropEndX := max (cropStartX st + minSize) x,
                cropEndY := max (cropStartY st + minSize) y\<rparr>
         | Move \<Rightarrow>
             (let width = cropEndX st - cropStartX st;
                  height = cropEndY st - cropStartY st;
                  newStartX = x - dragOffsetX st;
                  newStartY = y - dragOffsetY st;
                  newStartX = (if newStartX < 0 then 0 else newStartX);
                  newStartY = (if newStartY < 0 then 0 else newStartY);
                  newStartX = (if newStartX + width > canvasWidth st
                               then canvasWidth st - width else newStartX);
                  newStartY = (if newStartY + height > canvasHeight st
                               then canvasHeight st - height else newStartY)
              in st\<lparr>cropStartX := newStartX,
                    cropStartY := newStartY,
                    cropEndX := newStartX + width,
                    cropEndY := newStartY + height\<rparr>)
         | New \<Rightarrow> st\<lparr>cropEndX := x, cropEndY := y\<rparr>
         | Unset \<Rightarrow> st)"

subsection \<open>Pointer handlers\<close>

text \<open>
  The handlers scale the client coordinates of the event to canvas coordinates and pass
  them on; \<open>x\<close> and \<open>y\<close> below are the scaled coordinates. The touch handlers do the same
  with the single touch point.
\<close>

definition onMouseDown :: "crop_tool \<Rightarrow> rat \<Rightarrow> rat \<Rightarrow> crop_tool" where
  "onMouseDown st x y = startDrag (st\<lparr>isDragging := True\<rparr>) x y"

definition onMouseMove :: "crop_tool \<Rightarrow> rat \<Rightarrow> rat \<Rightarrow> crop_tool" where
  "onMouseMove st x y = (if \<not> isDragging st then st else updateDrag st x y)"

definition onMouseUp :: "crop_tool \<Rightarrow> crop_tool" where
  "onMouseUp st = st\<lparr>isDragging := False\<rparr>"




text \<open>An image file of the given size that decodes.\<close>

definition pngFile :: "rat \<Rightarrow> rat \<Rightarrow> image_file" where
  "pngFile w h = \<lparr>fileType = ''image/png'', decoded = Some \<lparr>imgWidth = w, imgHeight = h\<rparr>\<rparr>"

subsection \<open>Pointer movements of one drag\<close>

text \<open>The \<open>mousemove\<close> events of a drag, in order.\<close>

definition moves :: "crop_tool \<Rightarrow> (rat \<times> rat) list \<Rightarrow> crop_tool" where
  "moves st ps = foldl (\<lambda>s p. onMouseMove s (fst p) (snd p)) st ps"

subsection \<open>The hit test as the specification words it\<close>

text \<open>
  The specification gives \<open>beginGesture\<close> as a list of hit zones tried in order, the
  first match deciding the mode: the four corner handles, each matched when the point
  is within the tolerance of the corner on both axes (strictly closer than the
  tolerance, as the source compares), then the open interior, then a new selection.
  The definitions below follow those words; they are compared with \<open>onMouseDown\<close>.
\<close>

definition handleTolerance :: rat where
  "handleTolerance = 10"

definition withinTolerance :: "rat \<times> rat \<Rightarrow> rat \<times> rat \<Rightarrow> bool" where
  "withinTolerance p c =
     (\<bar>fst p - fst c\<bar> < handleTolerance \<and> \<bar>snd p - snd c\<bar> < handleTolerance)"

definition hitTest_spec :: "crop_tool \<Rightarrow> rat \<times> rat \<Rightarrow> drag_mode" where
  "hitTest_spec st p =
     (let x0 = cropStartX st; y0 = cropStartY st; x1 = cropEndX st; y1 = cropEndY st in
      case find (\<lambda>h. withinTolerance p (snd h))
             [(TopLeft, (x0, y0)), (TopRight, (x1, y0)),
              (BottomLeft, (x0, y1)), (BottomRight, (x1, y1))] of
        Some h \<Rightarrow> fst h
      | None \<Rightarrow>
          if x0 < fst p \<and> fst p < x1 \<and> y0 < snd p \<and> snd p < y1 then Move else New)"

definition beginGesture_spec :: "crop_tool \<Rightarrow> rat \<times> rat \<Rightarrow> crop_tool" where
  "beginGesture_spec st p =
     (case hitTest_spec st p of
        Move \<Rightarrow>
          st\<lparr>isDragging := True, dragMode := Move,
             dragOffsetX := fst p - cropStartX st, dragOffsetY := snd p - cropStartY st\<rparr>
      | New \<Rightarrow>
          st\<lparr>isDragging := True, dragMode := New,
             cropStartX := fst p, cropStartY := snd p, cropEndX := fst p, cropEndY := snd p\<rparr>
      | m \<Rightarrow> st\<lparr>isDragging := True, dragMode := m\<rparr>)"

subsection \<open>The rectangle invariant\<close>







subsection \<open>A running example\<close>

text \<open>A fresh tool on a default canvas after an image of 400 by 200 was loaded.\<close>

definition loaded :: crop_tool where
  "loaded = handleImageSelect (ImageCropTool 300 150) (Some (pngFile 400 200))"

section \<open>Properties\<close>

subsection \<open>Fields that a movement leaves alone\<close>

lemma updateDrag_frame:
  "isDragging (updateDrag st x y) = isDragging st"
  "dragMode (updateDrag st x y) = dragMode st"
  "canvasWidth (updateDrag st x y) = canvasWidth st"
  "canvasHeight (updateDrag st x y) = canvasHeight st"
  "dragOffsetX (updateDrag st x y) = dragOffsetX st"
  "dragOffsetY (updateDrag st x y) = dragOffsetY st"
  by (simp_all add: updateDrag_def Let_def split: drag_mode.splits)

lemma onMouseMove_frame:
  "isDragging (onMouseMove st x y) = isDragging st"
  "dragMode (onMouseMove st x y) = dragMode st"
  "canvasWidth (onMouseMove st x y) = canvasWidth st"
  "canvasHeight (onMouseMove st x y) = canvasHeight st"
  "dragOffsetX (onMouseMove st x y) = dragOffsetX st"
  "dragOffsetY (onMouseMove st x y) = dragOffsetY st"
  by (simp_all add: onMouseMove_def updateDrag_frame)

lemma moves_frame:
  "isDragging (moves st ps) = isDragging st"
  "dragMode (moves st ps) = dragMode st"
  "canvasWidth (moves st ps) = canvasWidth st"
  "canvasHeight (moves st ps) = canvasHeight st"
  "dragOffsetX (moves st ps) = dragOffsetX st"
  "dragOffsetY (moves st ps) = dragOffsetY st"
  by (induction ps arbitrary: st; simp add: moves_def onMouseMove_frame)+

lemma moves_snoc: "moves st (ps @ [p]) = onMouseMove (moves st ps) (fst p) (snd p)"
  by (simp add: moves_def)

lemma clamp_idem: "max 0 (min w (max 0 (min w v))) = max (0::rat) (min w v)"
  by (auto simp: max_def min_def)


subsection \<open>Loading an image: the centred half\<close>

lemma handleImageSelect_pngFile:
  "handleImageSelect st (Some (pngFile w h)) =
     st\<lparr>canvasWidth := w, canvasHeight := h,
        cropStartX := w * (25 / 100), cropStartY := h * (25 / 100),
        cropEndX := w * (75 / 100), cropEndY := h * (75 / 100)\<rparr>"
  by (simp add: handleImageSelect_def pngFile_def)


lemma loaded_eq:
  "loaded = \<lparr>canvasWidth = 400, canvasHeight = 200,
      cropStartX = 100, cropStartY = 50, cropEndX = 300, cropEndY = 150,
      isDragging = False, dragMode = Unset, dragOffsetX = 0, dragOffsetY = 0\<rparr>"
  by (simp add: loaded_def handleImageSelect_pngFile ImageCropTool_def)

text \<open>
  C6. For every image whose type starts with \<open>image/\<close> and that decodes to a positive
  width and height, \<open>handleImageSelect\<close> sets the crop rectangle to the centred half of
  the image: the start corner at one quarter and the end corner at three quarters of
  the width and height, and the canvas takes the size of the image. An image of 400 by
  200 gives the rectangle (100, 50, 300, 150).
\<close>

theorem initialize_centered_half:
  assumes "take 6 (fileType fl) = ''image/''"
    and "decoded fl = Some img"
    and "0 < imgWidth img" and "0 < imgHeight img"
  shows "currentRectangle (handleImageSelect st (Some fl)) =
           (imgWidth img / 4, imgHeight img / 4, 3 * imgWidth img / 4, 3 * imgHeight img / 4)
         \<and> canvasWidth (handleImageSelect st (Some fl)) = imgWidth img
         \<and> canvasHeight (handleImageSelect st (Some fl)) = imgHeight img
         \<and> currentRectangle (handleImageSelect st (Some (pngFile 400 200))) = (100, 50, 300, 150)"
  using assms by (simp add: handleImageSelect_def currentRectangle_def pngFile_def)

theorem initialize_centered_half_witness:
  "currentRectangle (handleImageSelect (ImageCropTool 300 150) (Some (pngFile 400 200)))
     = (400 / 4, 200 / 4, 3 * 400 / 4, 3 * 200 / 4)
   \<and> canvasWidth (handleImageSelect (ImageCropTool 300 150) (Some (pngFile 400 200))) = 400"
  using initialize_centered_half [of "pngFile 400 200" "\<lparr>imgWidth = 400, imgHeight = 200\<rparr>"
      "ImageCropTool 300 150"]
  by (simp add: pngFile_def)

subsection \<open>Releasing the pointer\<close>

text \<open>
  C9. Releasing the pointer twice gives the same state as releasing it once, whether or
  not a drag is active.
\<close>

theorem endGesture_idempotent:
  "onMouseUp (onMouseUp st) = onMouseUp st"
  by (simp add: onMouseUp_def)

subsection \<open>Resizing by a corner handle\<close>




subsection \<open>Moving the rectangle\<close>






subsection \<open>Pointer movements\<close>

text \<open>
  C5. During a drag, a pointer movement to any point has the effect of a movement to
  that point clamped into the canvas, \<open>max 0 (min width x)\<close> and \<open>max 0 (min height y)\<close>:
  the update sees the point only through its clamped coordinates. On a canvas 400 wide
  a movement to \<open>x = 500\<close> is a movement to \<open>x = 400\<close>, in every mode.
\<close>

theorem update_clamps_point:
  assumes "isDragging st"
  shows "onMouseMove st x y =
           onMouseMove st (max 0 (min (canvasWidth st) x)) (max 0 (min (canvasHeight st) y))
       \<and> (canvasWidth st = 400 \<longrightarrow> onMouseMove st 500 y = onMouseMove st 400 y)"
proof -
  have a: "updateDrag st x y =
        updateDrag st (max 0 (min (canvasWidth st) x)) (max 0 (min (canvasHeight st) y))" for x y
    unfolding updateDrag_def by (simp only: clamp_idem)
  have b: "updateDrag st 500 y = updateDrag st 400 y" if "canvasWidth st = 400"
    using that unfolding updateDrag_def by simp
  from a b show ?thesis by (simp add: onMouseMove_def)
qed

theorem update_clamps_point_witness:
  "isDragging (onMouseDown loaded 10 10)
   \<and> onMouseMove (onMouseDown loaded 10 10) 500 60 = onMouseMove (onMouseDown loaded 10 10) 400 60
   \<and> cropEndX (onMouseMove (onMouseDown loaded 10 10) 500 60) = 400"
proof -
  have h: "isDragging (onMouseDown loaded 10 10)"
    by (simp add: loaded_eq onMouseDown_def startDrag_def)
  have w: "canvasWidth (onMouseDown loaded 10 10) = 400"
    by (simp add: loaded_eq onMouseDown_def startDrag_def)
  have c: "canvasHeight (onMouseDown loaded 10 10) = 200"
    by (simp add: loaded_eq onMouseDown_def startDrag_def)
  have e: "cropEndX (onMouseMove (onMouseDown loaded 10 10) 500 60) = 400"
    by (simp add: loaded_eq onMouseDown_def startDrag_def onMouseMove_def updateDrag_def)
  from update_clamps_point [OF h, of 500 60] h w c e show ?thesis by simp
qed

text \<open>
  C7. With the rectangle (100, 50, 300, 150) on a canvas of 400 by 200, a press at
  (100, 50) resolves to the top left handle and leaves the rectangle as it is; a
  movement to (350, 150) then sets the start corner to (300 - 20, 150 - 20), that is
  (280, 130), and the end corner stays.
\<close>

theorem topLeft_scenario:
  assumes "currentRectangle st = (100, 50, 300, 150)"
    and "canvasWidth st = 400" and "canvasHeight st = 200"
  shows "dragMode (onMouseDown st 100 50) = TopLeft
       \<and> isDragging (onMouseDown st 100 50)
       \<and> currentRectangle (onMouseDown st 100 50) = (100, 50, 300, 150)
       \<and> cropStartX (onMouseMove (onMouseDown st 100 50) 350 150) = 300 - 20
       \<and> cropStartY (onMouseMove (onMouseDown st 100 50) 350 150) = 150 - 20
       \<and> currentRectangle (onMouseMove (onMouseDown st 100 50) 350 150) = (280, 130, 300, 150)"
  using assms
  by (simp add: currentRectangle_def onMouseDown_def startDrag_def onMouseMove_def updateDrag_def)

theorem topLeft_scenario_witness:
  "currentRectangle loaded = (100, 50, 300, 150)
   \<and> currentRectangle (onMouseMove (onMouseDown loaded 100 50) 350 150) = (280, 130, 300, 150)"
proof -
  have r: "currentRectangle loaded = (100, 50, 300, 150)"
    and w: "canvasWidth loaded = 400" and h: "canvasHeight loaded = 200"
    by (simp_all add: loaded_eq currentRectangle_def)
  from topLeft_scenario [OF r w h] r show ?thesis by simp
qed

text \<open>
  C8. In mode \<open>new\<close> a pointer movement writes the clamped point into the end corner
  and nothing else. Through a whole drag that began as a new selection at a point, the
  start corner stays at that point and the end corner is the clamped last pointer
  position. No minimum size applies: a press at (10, 10) and a movement to (15, 10)
  leave the rectangle (10, 10, 15, 10), 5 wide and 0 high.
\<close>

theorem new_tracks_pointer:
  "(isDragging st \<and> dragMode st = New \<longrightarrow>
      onMouseMove st x y =
        st\<lparr>cropEndX := max 0 (min (canvasWidth st) x), cropEndY := max 0 (min (canvasHeight st) y)\<rparr>)
   \<and> (dragMode (onMouseDown st sx sy) = New \<longrightarrow>
        currentRectangle (moves (onMouseDown st sx sy) (ps @ [(x, y)])) =
          (sx, sy, max 0 (min (canvasWidth st) x), max 0 (min (canvasHeight st) y)))
   \<and> currentRectangle (moves (onMouseDown loaded 10 10) [(15, 10)]) = (10, 10, 15, 10)"
proof -
  have step: "onMouseMove s x y =
        s\<lparr>cropEndX := max 0 (min (canvasWidth s) x), cropEndY := max 0 (min (canvasHeight s) y)\<rparr>"
    if "isDragging s" "dragMode s = New" for s x y
    using that by (simp add: onMouseMove_def updateDrag_def)
  have start: "cropStartX (moves s qs) = cropStartX s \<and> cropStartY (moves s qs) = cropStartY s"
    if "isDragging s" "dragMode s = New" for s qs
  proof (induction qs rule: rev_induct)
    case Nil
    show ?case by (simp add: moves_def)
  next
    case (snoc q qs)
    have "isDragging (moves s qs)" "dragMode (moves s qs) = New"
      using that by (simp_all add: moves_frame)
    from step [OF this] snoc.IH show ?case by (simp add: moves_snoc)
  qed
  have gesture: "currentRectangle (moves (onMouseDown st sx sy) (ps @ [(x, y)])) =
          (sx, sy, max 0 (min (canvasWidth st) x), max 0 (min (canvasHeight st) y))"
    if n: "dragMode (onMouseDown st sx sy) = New"
  proof -
    let ?b = "onMouseDown st sx sy"
    have d: "isDragging ?b" and cw: "canvasWidth ?b = canvasWidth st"
      and ch: "canvasHeight ?b = canvasHeight st"
      by (simp_all add: onMouseDown_def startDrag_def)
    have c: "cropStartX ?b = sx \<and> cropStartY ?b = sy"
      using n by (auto simp add: onMouseDown_def startDrag_def split: if_splits)
    have d': "isDragging (moves ?b ps)" and n': "dragMode (moves ?b ps) = New"
      using d n by (simp_all add: moves_frame)
    show ?thesis
      using step [OF d' n', of x y] start [OF d n, of ps] c cw ch
      by (simp add: moves_snoc currentRectangle_def moves_frame)
  qed
  have ex: "currentRectangle (moves (onMouseDown loaded 10 10) [(15, 10)]) = (10, 10, 15, 10)"
    by (simp add: loaded_eq moves_def onMouseDown_def startDrag_def onMouseMove_def updateDrag_def
        currentRectangle_def)
  from step gesture ex show ?thesis by blast
qed

theorem new_tracks_pointer_witness:
  "isDragging (onMouseDown loaded 10 10) \<and> dragMode (onMouseDown loaded 10 10) = New
   \<and> onMouseMove (onMouseDown loaded 10 10) 15 10 =
       (onMouseDown loaded 10 10)\<lparr>cropEndX := 15, cropEndY := 10\<rparr>
   \<and> currentRectangle (moves (onMouseDown loaded 10 10) ([(60, 60)] @ [(15, 10)])) = (10, 10, 15, 10)"
proof -
  have d: "isDragging (onMouseDown loaded 10 10)" and n: "dragMode (onMouseDown loaded 10 10) = New"
    and w: "canvasWidth (onMouseDown loaded 10 10) = 400"
    and h: "canvasHeight (onMouseDown loaded 10 10) = 200"
    by (simp_all add: loaded_eq onMouseDown_def startDrag_def)
  have w': "canvasWidth loaded = 400" and h': "canvasHeight loaded = 200"
    by (simp_all add: loaded_eq)
  from new_tracks_pointer [where st = "onMouseDown loaded 10 10" and x = 15 and y = 10]
    new_tracks_pointer [where st = loaded and sx = 10 and sy = 10 and ps = "[(60, 60)]"
      and x = 15 and y = 10]
    d n w h w' h'
  show ?thesis by simp
qed

subsection \<open>Pointer presses\<close>

text \<open>
  C10. A pointer press that resolves to a corner handle or to \<open>move\<close> leaves the four
  coordinates of the rectangle as they were. The press changes the rectangle exactly
  when it resolves to \<open>new\<close>, and it always sets some mode.
\<close>

theorem begin_changes_rectangle_only_for_New:
  "(dragMode (onMouseDown st x y) \<in> {TopLeft, TopRight, BottomLeft, BottomRight, Move} \<longrightarrow>
      currentRectangle (onMouseDown st x y) = currentRectangle st)
   \<and> (currentRectangle (onMouseDown st x y) \<noteq> currentRectangle st) =
       (dragMode (onMouseDown st x y) = New)
   \<and> dragMode (onMouseDown st x y) \<noteq> Unset"
  by (auto simp add: onMouseDown_def startDrag_def currentRectangle_def)

theorem begin_changes_rectangle_only_for_New_witness:
  "dragMode (onMouseDown loaded 200 100) \<in> {TopLeft, TopRight, BottomLeft, BottomRight, Move}
   \<and> currentRectangle (onMouseDown loaded 200 100) = currentRectangle loaded
   \<and> currentRectangle (onMouseDown loaded 200 100) = (100, 50, 300, 150)"
proof -
  have m: "dragMode (onMouseDown loaded 200 100) \<in> {TopLeft, TopRight, BottomLeft, BottomRight, Move}"
    by (simp add: loaded_eq onMouseDown_def startDrag_def)
  have r: "currentRectangle loaded = (100, 50, 300, 150)"
    by (simp add: loaded_eq currentRectangle_def)
  from begin_changes_rectangle_only_for_New [of loaded 200 100] m r show ?thesis by auto
qed

lemma hitTest_spec_cascade:
  "hitTest_spec st (x, y) =
     (if \<bar>x - cropStartX st\<bar> < 10 \<and> \<bar>y - cropStartY st\<bar> < 10 then TopLeft
      else if \<bar>x - cropEndX st\<bar> < 10 \<and> \<bar>y - cropStartY st\<bar> < 10 then TopRight
      else if \<bar>x - cropStartX st\<bar> < 10 \<and> \<bar>y - cropEndY st\<bar> < 10 then BottomLeft
      else if \<bar>x - cropEndX st\<bar> < 10 \<and> \<bar>y - cropEndY st\<bar> < 10 then BottomRight
      else if cropStartX st < x \<and> x < cropEndX st \<and> cropStartY st < y \<and> y < cropEndY st
      then Move else New)"
  unfolding hitTest_spec_def withinTolerance_def handleTolerance_def Let_def
  by simp


text \<open>
  C4. For every point, pressing the pointer resolves the mode as the ordered hit test
  of the specification does: the handles at the top left, top right, bottom left and
  bottom right corners in that order, each matched when the point is closer than 10 to
  the corner on both axes, then the open interior of the rectangle, which gives mode
  \<open>move\<close> with the offset of the point from the start corner, and otherwise mode
  \<open>new\<close> with both corners set to the point. With the rectangle (100, 50, 300, 150),
  a press at (10, 10) gives mode \<open>new\<close> and the rectangle (10, 10, 10, 10), and a
  movement to (60, 60) then gives (10, 10, 60, 60), on a canvas of at least 60 by 60.
\<close>

theorem beginGesture_hit_test:
  "onMouseDown st x y = beginGesture_spec st (x, y)
   \<and> (currentRectangle st = (100, 50, 300, 150) \<and> 60 \<le> canvasWidth st \<and> 60 \<le> canvasHeight st \<longrightarrow>
        dragMode (onMouseDown st 10 10) = New
        \<and> currentRectangle (onMouseDown st 10 10) = (10, 10, 10, 10)
        \<and> currentRectangle (onMouseMove (onMouseDown st 10 10) 60 60) = (10, 10, 60, 60))"
proof -
  have a: "onMouseDown st x y = beginGesture_spec st (x, y)"
  proof -
    define tl where "tl \<longleftrightarrow> \<bar>x - cropStartX st\<bar> < 10 \<and> \<bar>y - cropStartY st\<bar> < 10"
    define tr where "tr \<longleftrightarrow> \<bar>x - cropEndX st\<bar> < 10 \<and> \<bar>y - cropStartY st\<bar> < 10"
    define bl where "bl \<longleftrightarrow> \<bar>x - cropStartX st\<bar> < 10 \<and> \<bar>y - cropEndY st\<bar> < 10"
    define br where "br \<longleftrightarrow> \<bar>x - cropEndX st\<bar> < 10 \<and> \<bar>y - cropEndY st\<bar> < 10"
    define ins where
      "ins \<longleftrightarrow> cropStartX st < x \<and> x < cropEndX st \<and> cropStartY st < y \<and> y < cropEndY st"
    have fld: "cropStartX (st\<lparr>isDragging := True\<rparr>) = cropStartX st"
      "cropStartY (st\<lparr>isDragging := True\<rparr>) = cropStartY st"
      "cropEndX (st\<lparr>isDragging := True\<rparr>) = cropEndX st"
      "cropEndY (st\<lparr>isDragging := True\<rparr>) = cropEndY st"
      by simp_all
    have src: "onMouseDown st x y =
        (if tl then st\<lparr>isDragging := True, dragMode := TopLeft\<rparr>
         else if tr then st\<lparr>isDragging := True, dragMode := TopRight\<rparr>
         else if bl then st\<lparr>isDragging := True, dragMode := BottomLeft\<rparr>
         else if br then st\<lparr>isDragging := True, dragMode := BottomRight\<rparr>
         else if ins then st\<lparr>isDragging := True, dragMode := Move,
                dragOffsetX := x - cropStartX st, dragOffsetY := y - cropStartY st\<rparr>
         else st\<lparr>isDragging := True, dragMode := New,
                cropStartX := x, cropStartY := y, cropEndX := x, cropEndY := y\<rparr>)"
      unfolding onMouseDown_def startDrag_def Let_def tl_def tr_def bl_def br_def ins_def fld
      by (rule refl)
    have spec: "hitTest_spec st (x, y) =
        (if tl then TopLeft else if tr then TopRight else if bl then BottomLeft
         else if br then BottomRight else if ins then Move else New)"
      unfolding tl_def tr_def bl_def br_def ins_def by (rule hitTest_spec_cascade)
    show ?thesis
      unfolding beginGesture_spec_def src spec
      by (cases tl; cases tr; cases bl; cases br; cases ins; simp)
  qed
  have b: "dragMode (onMouseDown st 10 10) = New
        \<and> currentRectangle (onMouseDown st 10 10) = (10, 10, 10, 10)
        \<and> currentRectangle (onMouseMove (onMouseDown st 10 10) 60 60) = (10, 10, 60, 60)"
    if "currentRectangle st = (100, 50, 300, 150)" "60 \<le> canvasWidth st" "60 \<le> canvasHeight st"
    using that
    by (simp add: currentRectangle_def onMouseDown_def startDrag_def onMouseMove_def updateDrag_def)
  from a b show ?thesis by blast
qed

theorem beginGesture_hit_test_witness:
  "currentRectangle loaded = (100, 50, 300, 150)
   \<and> onMouseDown loaded 10 10 = beginGesture_spec loaded (10, 10)
   \<and> dragMode (onMouseDown loaded 10 10) = New
   \<and> currentRectangle (onMouseMove (onMouseDown loaded 10 10) 60 60) = (10, 10, 60, 60)"
proof -
  have r: "currentRectangle loaded = (100, 50, 300, 150)"
    and w: "60 \<le> canvasWidth loaded" and h: "60 \<le> canvasHeight loaded"
    by (simp_all add: loaded_eq currentRectangle_def)
  from beginGesture_hit_test [of loaded 10 10] r w h show ?thesis by blast
qed

subsection \<open>The rectangle invariant over sessions\<close>









end
